theory Spec2Isabelle
  imports Main "HOL-Library.AList"
begin

section \<open>Python values and exceptions\<close>

text \<open>
  A Python \<open>str\<close> is modelled as a \<open>string\<close>, read as the UTF-8 bytes of the text.
  The two characters the extractor looks for, \<open>{\<close> and \<open>}\<close>, are ASCII, and no byte
  of a longer UTF-8 sequence equals an ASCII byte, so searching and slicing the bytes
  gives the bytes of what Python finds and slices on code points. A Python \<open>str\<close>
  can also hold a surrogate code point (U+D800 to U+DFFF) on its own, which strict
  UTF-8 cannot encode; the model writes it in the three-byte form, whose first byte
  is \<open>ED\<close> and whose second byte is \<open>A0\<close> to \<open>BF\<close>.
\<close>

text \<open>
  The exceptions the program can meet. Every one of them derives from \<open>Exception\<close>
  in Python; \<open>JSONDecodeError\<close>, pydantic's \<open>ValidationError\<close>, \<open>UnicodeDecodeError\<close>
  and \<open>UnicodeEncodeError\<close> derive from \<open>ValueError\<close>, \<open>FileNotFoundError\<close> from
  \<open>OSError\<close>.
\<close>

datatype field_error = Missing string | StringType string | DictType string

datatype py_exn =
    ValueError
  | TypeError
  | KeyError string
  | IndexError
  | JSONDecodeError
  | ValidationError "field_error list"
  | CalledProcessError int string string
  | FileNotFoundError
  | UnicodeDecodeError
  | UnicodeEncodeError

fun is_Exception :: "py_exn \<Rightarrow> bool" where
  "is_Exception ValueError = True"
| "is_Exception TypeError = True"
| "is_Exception (KeyError k) = True"
| "is_Exception IndexError = True"
| "is_Exception JSONDecodeError = True"
| "is_Exception (ValidationError es) = True"
| "is_Exception (CalledProcessError rc out err) = True"
| "is_Exception FileNotFoundError = True"
| "is_Exception UnicodeDecodeError = True"
| "is_Exception UnicodeEncodeError = True"

section \<open>String primitives of Python\<close>

text \<open>\<open>text.find(c)\<close> for a one-character \<open>c\<close>: the lowest index of \<open>c\<close>, or \<open>-1\<close>.\<close>

fun str_find :: "string \<Rightarrow> char \<Rightarrow> int" where
  "str_find [] c = - 1"
| "str_find (x # xs) c =
     (if x = c then 0
      else (let r = str_find xs c in if r < 0 then - 1 else r + 1))"

text \<open>\<open>text.index(c)\<close>: as \<open>find\<close>, but raises \<open>ValueError\<close> when \<open>c\<close> is absent.\<close>

definition str_index :: "string \<Rightarrow> char \<Rightarrow> py_exn + int" where
  "str_index text c =
     (let r = str_find text c in if r < 0 then Inl ValueError else Inr r)"

text \<open>\<open>text.rfind(c)\<close>: the highest index of \<open>c\<close>, or \<open>-1\<close>.\<close>

definition str_rfind :: "string \<Rightarrow> char \<Rightarrow> int" where
  "str_rfind text c =
     (let r = str_find (rev text) c
      in if r < 0 then - 1 else int (length text) - 1 - r)"

text \<open>
  \<open>text[i:j]\<close>: a negative bound counts from the end, then each bound is clamped to
  \<open>0 .. len(text)\<close>; the slice is empty when the upper bound is not above the lower.
  Slicing never raises.
\<close>

definition slice :: "'a list \<Rightarrow> int \<Rightarrow> int \<Rightarrow> 'a list" where
  "slice xs i j =
     (let n = int (length xs);
          lo = (if i < 0 then max 0 (i + n) else min i n);
          hi = (if j < 0 then max 0 (j + n) else min j n)
      in take (nat (hi - lo)) (drop (nat lo) xs))"

section \<open>The JSON extractor\<close>

text \<open>
  \<^verbatim>\<open>
  def extract_first_json(text: str) -> Optional[str]:
      try:
          start = text.index("{")
          end = text.rfind("}")
          return text[start:end+1]
      except Exception:
          return None
  \<close>
  The result is \<open>Inl e\<close> when an exception \<open>e\<close> leaves the function, \<open>Inr None\<close> for
  Python's \<open>None\<close> and \<open>Inr (Some s)\<close> for a returned string.
\<close>

definition extract_first_json :: "string \<Rightarrow> py_exn + string option" where
  "extract_first_json text =
     (case str_index text CHR ''{'' of
        Inl e \<Rightarrow> if is_Exception e then Inr None else Inl e
      | Inr start \<Rightarrow>
          (let end = str_rfind text CHR ''}''
           in Inr (Some (slice text start (end + 1)))))"

section \<open>JSON values and the standard decoder\<close>

text \<open>
  What \<open>json.loads\<close> can return: \<open>None\<close>, a \<open>bool\<close>, an \<open>int\<close>, a \<open>float\<close>, a \<open>str\<close>,
  a \<open>list\<close> or a \<open>dict\<close> with string keys. A \<open>dict\<close> is an association list with its
  keys in insertion order. A float is kept as the literal that Python's \<open>float\<close>
  is applied to (its rounding to a binary64 is not modelled).
\<close>

datatype json =
    JNull
  | JBool bool
  | JInt int
  | JFloat string
  | JString string
  | JArray "json list"
  | JObject "(string \<times> json) list"

text \<open>
  \<open>json.loads\<close> belongs to Python's standard library. The model below follows the
  grammar that it accepts with its default arguments (strict mode, the constants
  \<open>NaN\<close>, \<open>Infinity\<close> and \<open>-Infinity\<close> allowed), in two passes that are total by
  structural recursion: a lexer over the characters and a stack automaton over the
  tokens. Every failure is a \<open>JSONDecodeError\<close>. The interpreter's recursion limit and
  its limit on the digits of an integer literal are not modelled.
\<close>

datatype token =
    TLBrace | TRBrace | TLBracket | TRBracket | TColon | TComma
  | TString string
  | TScalar json

definition is_ws :: "char \<Rightarrow> bool" where
  "is_ws c \<longleftrightarrow> c = CHR '' '' \<or> c = CHR 0x09 \<or> c = CHR 0x0A \<or> c = CHR 0x0D"

definition is_digit :: "char \<Rightarrow> bool" where
  "is_digit c \<longleftrightarrow> (48::nat) \<le> of_char c \<and> of_char c \<le> (57::nat)"

definition is_letter :: "char \<Rightarrow> bool" where
  "is_letter c \<longleftrightarrow>
     ((65::nat) \<le> of_char c \<and> of_char c \<le> (90::nat)) \<or>
     ((97::nat) \<le> of_char c \<and> of_char c \<le> (122::nat))"

text \<open>
  The characters of the scalars (numbers and the named constants). Between two
  structural characters, quotes or blanks, an accepted text holds exactly one scalar,
  so the lexer takes a maximal run of these characters as one lexeme.
\<close>

definition is_atom_char :: "char \<Rightarrow> bool" where
  "is_atom_char c \<longleftrightarrow>
     is_digit c \<or> is_letter c \<or> c = CHR ''+'' \<or> c = CHR ''-'' \<or> c = CHR ''.''"

definition dec_value :: "string \<Rightarrow> nat" where
  "dec_value ds = foldl (\<lambda>n d. 10 * n + (of_char d - 48)) 0 ds"

text \<open>The integer part of a number: \<open>0\<close> or a digit sequence without leading zero.\<close>

definition int_part_ok :: "string \<Rightarrow> bool" where
  "int_part_ok ds \<longleftrightarrow>
     (case ds of [] \<Rightarrow> False | d # r \<Rightarrow> if d = CHR ''0'' then r = [] else True)"

text \<open>An optional fraction \<open>.digits\<close>: whether one is there, and what follows it.\<close>

definition frac_part :: "string \<Rightarrow> (bool \<times> string) option" where
  "frac_part r =
     (case r of
        [] \<Rightarrow> Some (False, [])
      | c # r' \<Rightarrow>
          if c = CHR ''.'' then
            (if takeWhile is_digit r' = [] then None
             else Some (True, dropWhile is_digit r'))
          else Some (False, r))"

text \<open>An optional exponent \<open>e\<close> or \<open>E\<close>, an optional sign, digits.\<close>

definition exp_part :: "string \<Rightarrow> (bool \<times> string) option" where
  "exp_part r =
     (case r of
        [] \<Rightarrow> Some (False, [])
      | c # r' \<Rightarrow>
          if c = CHR ''e'' \<or> c = CHR ''E'' then
            (let r'' = (case r' of
                          [] \<Rightarrow> []
                        | s # t \<Rightarrow> if s = CHR ''+'' \<or> s = CHR ''-'' then t else r')
             in if takeWhile is_digit r'' = [] then None
                else Some (True, dropWhile is_digit r''))
          else Some (False, r))"

definition number_of_lexeme :: "string \<Rightarrow> json option" where
  "number_of_lexeme s =
     (let neg = (case s of [] \<Rightarrow> False | c # _ \<Rightarrow> c = CHR ''-'');
          body = (if neg then tl s else s);
          ip = takeWhile is_digit body
      in if int_part_ok ip then
           (case frac_part (dropWhile is_digit body) of
              None \<Rightarrow> None
            | Some (has_frac, r2) \<Rightarrow>
                (case exp_part r2 of
                   None \<Rightarrow> None
                 | Some (has_exp, r3) \<Rightarrow>
                     if r3 = [] then
                       Some (if has_frac \<or> has_exp then JFloat s
                             else JInt (if neg then - int (dec_value ip)
                                        else int (dec_value ip)))
                     else None))
         else None)"

definition scalar_of_lexeme :: "string \<Rightarrow> json option" where
  "scalar_of_lexeme s =
     (if s = ''null'' then Some JNull
      else if s = ''true'' then Some (JBool True)
      else if s = ''false'' then Some (JBool False)
      else if s = ''NaN'' \<or> s = ''Infinity'' \<or> s = ''-Infinity'' then Some (JFloat s)
      else number_of_lexeme s)"

text \<open>
  The UTF-8 bytes of a code point. A surrogate that stays alone in a Python string
  is written in the three-byte form.
\<close>

definition utf8 :: "nat \<Rightarrow> string" where
  "utf8 cp =
     (if cp < 0x80 then [char_of cp]
      else if cp < 0x800 then
        [char_of (0xC0 + cp div 0x40), char_of (0x80 + cp mod 0x40)]
      else if cp < 0x10000 then
        [char_of (0xE0 + cp div 0x1000), char_of (0x80 + cp div 0x40 mod 0x40),
         char_of (0x80 + cp mod 0x40)]
      else
        [char_of (0xF0 + cp div 0x40000), char_of (0x80 + cp div 0x1000 mod 0x40),
         char_of (0x80 + cp div 0x40 mod 0x40), char_of (0x80 + cp mod 0x40)])"

definition hex_digit :: "char \<Rightarrow> nat option" where
  "hex_digit c =
     (let n = (of_char c :: nat)
      in if 48 \<le> n \<and> n \<le> 57 then Some (n - 48)
         else if 65 \<le> n \<and> n \<le> 70 then Some (n - 55)
         else if 97 \<le> n \<and> n \<le> 102 then Some (n - 87)
         else None)"

definition is_high_surrogate :: "nat \<Rightarrow> bool" where
  "is_high_surrogate cp \<longleftrightarrow> 0xD800 \<le> cp \<and> cp \<le> 0xDBFF"

definition is_low_surrogate :: "nat \<Rightarrow> bool" where
  "is_low_surrogate cp \<longleftrightarrow> 0xDC00 \<le> cp \<and> cp \<le> 0xDFFF"

definition simple_escape :: "char \<Rightarrow> char option" where
  "simple_escape c =
     (if c = CHR 0x22 \<or> c = CHR 0x5C \<or> c = CHR ''/'' then Some c
      else if c = CHR ''b'' then Some (CHR 0x08)
      else if c = CHR ''f'' then Some (CHR 0x0C)
      else if c = CHR ''n'' then Some (CHR 0x0A)
      else if c = CHR ''r'' then Some (CHR 0x0D)
      else if c = CHR ''t'' then Some (CHR 0x09)
      else None)"

text \<open>
  The lexer reads one character at a time. Inside a string it keeps the decoded
  bytes so far, newest first, and a high surrogate of a \<open>\u\<close> escape that may still
  be paired with a low one from the escape that follows it directly.
\<close>

datatype lmode =
    Neutral
  | InAtom string
  | InStr "nat option" string
  | InEsc "nat option" string
  | InUni "nat option" string "nat list"

definition flush :: "nat option \<Rightarrow> string \<Rightarrow> string" where
  "flush pending acc = (case pending of None \<Rightarrow> acc | Some hi \<Rightarrow> rev (utf8 hi) @ acc)"

definition hex_value :: "nat list \<Rightarrow> nat" where
  "hex_value ds = foldl (\<lambda>n d. 16 * n + d) 0 ds"

definition after_unicode :: "nat option \<Rightarrow> string \<Rightarrow> nat \<Rightarrow> lmode" where
  "after_unicode pending acc cp =
     (case pending of
        Some hi \<Rightarrow>
          if is_low_surrogate cp then
            InStr None (rev (utf8 (0x10000 + (hi - 0xD800) * 0x400 + (cp - 0xDC00))) @ acc)
          else if is_high_surrogate cp then InStr (Some cp) (rev (utf8 hi) @ acc)
          else InStr None (rev (utf8 cp) @ rev (utf8 hi) @ acc)
      | None \<Rightarrow>
          if is_high_surrogate cp then InStr (Some cp) acc
          else InStr None (rev (utf8 cp) @ acc))"

definition neutral_step :: "token list \<Rightarrow> char \<Rightarrow> py_exn + lmode \<times> token list" where
  "neutral_step ts c =
     (if is_ws c then Inr (Neutral, ts)
      else if c = CHR ''{'' then Inr (Neutral, TLBrace # ts)
      else if c = CHR ''}'' then Inr (Neutral, TRBrace # ts)
      else if c = CHR ''['' then Inr (Neutral, TLBracket # ts)
      else if c = CHR '']'' then Inr (Neutral, TRBracket # ts)
      else if c = CHR '':'' then Inr (Neutral, TColon # ts)
      else if c = CHR '','' then Inr (Neutral, TComma # ts)
      else if c = CHR 0x22 then Inr (InStr None [], ts)
      else if is_atom_char c then Inr (InAtom [c], ts)
      else Inl JSONDecodeError)"

fun lex_step :: "lmode \<times> token list \<Rightarrow> char \<Rightarrow> py_exn + lmode \<times> token list" where
  "lex_step (Neutral, ts) c = neutral_step ts c"
| "lex_step (InAtom acc, ts) c =
     (if is_atom_char c then Inr (InAtom (c # acc), ts)
      else (case scalar_of_lexeme (rev acc) of
              None \<Rightarrow> Inl JSONDecodeError
            | Some v \<Rightarrow> neutral_step (TScalar v # ts) c))"
| "lex_step (InStr pending acc, ts) c =
     (if c = CHR 0x5C then Inr (InEsc pending acc, ts)
      else if c = CHR 0x22 then Inr (Neutral, TString (rev (flush pending acc)) # ts)
      else if (of_char c :: nat) < 0x20 then Inl JSONDecodeError
      else Inr (InStr None (c # flush pending acc), ts))"
| "lex_step (InEsc pending acc, ts) c =
     (if c = CHR ''u'' then Inr (InUni pending acc [], ts)
      else (case simple_escape c of
              None \<Rightarrow> Inl JSONDecodeError
            | Some d \<Rightarrow> Inr (InStr None (d # flush pending acc), ts)))"
| "lex_step (InUni pending acc ds, ts) c =
     (case hex_digit c of
        None \<Rightarrow> Inl JSONDecodeError
      | Some d \<Rightarrow>
          if length ds < 3 then Inr (InUni pending acc (ds @ [d]), ts)
          else Inr (after_unicode pending acc (hex_value (ds @ [d])), ts))"

fun lex_from :: "lmode \<times> token list \<Rightarrow> string \<Rightarrow> py_exn + token list" where
  "lex_from (m, ts) [] =
     (case m of
        Neutral \<Rightarrow> Inr (rev ts)
      | InAtom acc \<Rightarrow>
          (case scalar_of_lexeme (rev acc) of
             None \<Rightarrow> Inl JSONDecodeError
           | Some v \<Rightarrow> Inr (rev (TScalar v # ts)))
      | _ \<Rightarrow> Inl JSONDecodeError)"
| "lex_from st (c # cs) =
     (case lex_step st c of Inl e \<Rightarrow> Inl e | Inr st' \<Rightarrow> lex_from st' cs)"

definition lex :: "string \<Rightarrow> py_exn + token list" where
  "lex s = lex_from (Neutral, []) s"

text \<open>
  The parser keeps a stack of the containers that are still open: an array with its
  elements so far, an object with its members so far, and above an object the key
  whose value is being read. All lists are newest first.
\<close>

datatype frame = FArr "json list" | FObj "(string \<times> json) list" | FKey string

datatype pstate =
    WantValue
  | WantValueOrClose
  | WantKeyOrClose
  | WantKey
  | WantColon
  | AfterElement
  | AfterMember
  | Finished json

text \<open>\<open>dict(pairs)\<close>: a key that comes again keeps its place and takes the later value.\<close>

definition dict_of :: "(string \<times> json) list \<Rightarrow> (string \<times> json) list" where
  "dict_of pairs = foldl (\<lambda>d (k, v). AList.update k v d) [] pairs"

text \<open>A value is complete: it goes into the container that is open, if there is one.\<close>

fun place :: "json \<Rightarrow> frame list \<Rightarrow> (pstate \<times> frame list) option" where
  "place v [] = Some (Finished v, [])"
| "place v (FArr es # st) = Some (AfterElement, FArr (v # es) # st)"
| "place v (FKey k # FObj ms # st) = Some (AfterMember, FObj ((k, v) # ms) # st)"
| "place v _ = None"

definition open_value :: "token \<Rightarrow> frame list \<Rightarrow> (pstate \<times> frame list) option" where
  "open_value t st =
     (case t of
        TScalar v \<Rightarrow> place v st
      | TString s \<Rightarrow> place (JString s) st
      | TLBrace \<Rightarrow> Some (WantKeyOrClose, FObj [] # st)
      | TLBracket \<Rightarrow> Some (WantValueOrClose, FArr [] # st)
      | _ \<Rightarrow> None)"

definition close_array :: "frame list \<Rightarrow> (pstate \<times> frame list) option" where
  "close_array st =
     (case st of FArr es # st' \<Rightarrow> place (JArray (rev es)) st' | _ \<Rightarrow> None)"

definition close_object :: "frame list \<Rightarrow> (pstate \<times> frame list) option" where
  "close_object st =
     (case st of FObj ms # st' \<Rightarrow> place (JObject (dict_of (rev ms))) st' | _ \<Rightarrow> None)"

definition read_key :: "token \<Rightarrow> frame list \<Rightarrow> (pstate \<times> frame list) option" where
  "read_key t st = (case t of TString k \<Rightarrow> Some (WantColon, FKey k # st) | _ \<Rightarrow> None)"

fun parse_step :: "pstate \<times> frame list \<Rightarrow> token \<Rightarrow> (pstate \<times> frame list) option" where
  "parse_step (WantValue, st) t = open_value t st"
| "parse_step (WantValueOrClose, st) t =
     (if t = TRBracket then close_array st else open_value t st)"
| "parse_step (WantKeyOrClose, st) t =
     (if t = TRBrace then close_object st else read_key t st)"
| "parse_step (WantKey, st) t = read_key t st"
| "parse_step (WantColon, st) t = (if t = TColon then Some (WantValue, st) else None)"
| "parse_step (AfterElement, st) t =
     (if t = TComma then Some (WantValue, st)
      else if t = TRBracket then close_array st
      else None)"
| "parse_step (AfterMember, st) t =
     (if t = TComma then Some (WantKey, st)
      else if t = TRBrace then close_object st
      else None)"
| "parse_step (Finished v, st) t = None"

fun parse_from :: "pstate \<times> frame list \<Rightarrow> token list \<Rightarrow> py_exn + json" where
  "parse_from (ps, st) [] =
     (case ps of Finished v \<Rightarrow> Inr v | _ \<Rightarrow> Inl JSONDecodeError)"
| "parse_from cfg (t # ts) =
     (case parse_step cfg t of
        None \<Rightarrow> Inl JSONDecodeError
      | Some cfg' \<Rightarrow> parse_from cfg' ts)"

definition json_loads :: "string \<Rightarrow> py_exn + json" where
  "json_loads s =
     (case lex s of Inl e \<Rightarrow> Inl e | Inr ts \<Rightarrow> parse_from (WantValue, []) ts)"

section \<open>The tool-call schema\<close>

text \<open>
  \<^verbatim>\<open>
  class ToolCall(BaseModel):
      tool_name: str
      parameters: dict
  \<close>
  Both fields are required (neither has a default). Validation follows pydantic 2:
  a \<open>str\<close> field takes a string and a \<open>dict\<close> field takes a dict, with no coercion
  from the other JSON values; keys that name no field are ignored (the default
  \<open>extra\<close> setting); the errors of all fields are collected into one
  \<open>ValidationError\<close>.
\<close>

record ToolCall =
  tool_name :: string
  parameters :: "(string \<times> json) list"

definition validate_str :: "(string \<times> json) list \<Rightarrow> string \<Rightarrow> field_error + string" where
  "validate_str kwargs field =
     (case map_of kwargs field of
        None \<Rightarrow> Inl (Missing field)
      | Some (JString s) \<Rightarrow> Inr s
      | Some _ \<Rightarrow> Inl (StringType field))"

definition validate_dict ::
  "(string \<times> json) list \<Rightarrow> string \<Rightarrow> field_error + (string \<times> json) list" where
  "validate_dict kwargs field =
     (case map_of kwargs field of
        None \<Rightarrow> Inl (Missing field)
      | Some (JObject d) \<Rightarrow> Inr d
      | Some _ \<Rightarrow> Inl (DictType field))"

definition ToolCall_init :: "(string \<times> json) list \<Rightarrow> py_exn + ToolCall" where
  "ToolCall_init kwargs =
     (case (validate_str kwargs ''tool_name'', validate_dict kwargs ''parameters'') of
        (Inr s, Inr d) \<Rightarrow> Inr \<lparr>tool_name = s, parameters = d\<rparr>
      | (Inl e1, Inr d) \<Rightarrow> Inl (ValidationError [e1])
      | (Inr s, Inl e2) \<Rightarrow> Inl (ValidationError [e2])
      | (Inl e1, Inl e2) \<Rightarrow> Inl (ValidationError [e1, e2]))"

text \<open>
  \<open>ToolCall(**data)\<close>: the argument of \<open>**\<close> must be a mapping, otherwise the call
  raises \<open>TypeError\<close> before the model is built.
\<close>

definition ToolCall_kwargs :: "json \<Rightarrow> py_exn + ToolCall" where
  "ToolCall_kwargs data =
     (case data of JObject kwargs \<Rightarrow> ToolCall_init kwargs | _ \<Rightarrow> Inl TypeError)"

section \<open>Console output\<close>

text \<open>
  Each \<open>print\<close> of the program is one event; the time a scenario took is a wall-clock
  measurement and is not part of the event. The console is a UTF-8 stream with
  strict error handling (Python's standard output on a UTF-8 locale) that takes
  every write: a \<open>print\<close> raises \<open>UnicodeEncodeError\<close> when a text it writes holds a
  surrogate, and the event does not happen. The fixed texts of the program, the
  message of an exception (positions, type names, values in their escaped form) and
  the \<open>repr\<close> of a dict never hold one, so only the prints that write a run-time
  string as it is can fail: the model name, a scenario id, the error stream, the
  raw text and the tool name.
\<close>

fun has_surrogate :: "string \<Rightarrow> bool" where
  "has_surrogate (a # b # r) =
     ((a = CHR 0xED \<and> (0xA0::nat) \<le> of_char b \<and> of_char b \<le> (0xBF::nat))
      \<or> has_surrogate (b # r))"
| "has_surrogate [a] = False"
| "has_surrogate [] = False"

datatype out_line =
    TestingModel string
  | ScenarioHeader string
  | OllamaError string
  | JSONParseFailed py_exn
  | RawText string
  | ToolLine string
  | ParametersLine "(string \<times> json) list"
  | FailedToParse
  | TimeLine

section \<open>The validator\<close>

text \<open>
  \<^verbatim>\<open>
  def parse_tool_call(output: str) -> Optional[ToolCall]:
      j = extract_first_json(output)
      if not j:
          return None
      try:
          data = json.loads(j)
          return ToolCall(**data)
      except Exception as e:
          print("JSON parse failed:", e)
          print("Raw text:", output)
          return None
  \<close>
  The first component is what the function returns or raises, the second what it
  prints. \<open>not j\<close> holds for \<open>None\<close> and for the empty string. The two prints are in
  the handler, outside the \<open>try\<close> block: an exception of the second one leaves the
  function.
\<close>

definition parse_tool_call :: "string \<Rightarrow> (py_exn + ToolCall option) \<times> out_line list" where
  "parse_tool_call output =
     (case extract_first_json output of
        Inl e \<Rightarrow> (Inl e, [])
      | Inr None \<Rightarrow> (Inr None, [])
      | Inr (Some j) \<Rightarrow>
          if j = [] then (Inr None, [])
          else
            (case (case json_loads j of Inl e \<Rightarrow> Inl e | Inr data \<Rightarrow> ToolCall_kwargs data) of
               Inr call \<Rightarrow> (Inr (Some call), [])
             | Inl e \<Rightarrow>
                 if is_Exception e then
                   (if has_surrogate output
                    then (Inl UnicodeEncodeError, [JSONParseFailed e])
                    else (Inr None, [JSONParseFailed e, RawText output]))
                 else (Inl e, [])))"

section \<open>The model invoker\<close>

text \<open>
  The world outside the program: what happens when a command is run with a given
  text on its standard input. Either the process runs and exits with a status and
  the bytes of its output and of its error stream, or it cannot be started (the
  executable is not installed).
\<close>

datatype proc_outcome = Exited int string string | NotStarted

type_synonym world = "string list \<Rightarrow> string \<Rightarrow> proc_outcome"

record CompletedProcess =
  returncode :: int
  stdout :: string
  stderr :: string

text \<open>
  The arguments of a command are encoded one after the other for the operating
  system (POSIX, UTF-8 with the \<open>surrogateescape\<close> handler): the surrogates U+DC80 to
  U+DCFF, whose second byte in the model is \<open>B2\<close> or \<open>B3\<close>, stand for raw bytes and are
  encoded, any other surrogate raises \<open>UnicodeEncodeError\<close>, and an argument with a
  zero byte raises \<open>ValueError\<close>.
\<close>

fun has_unescapable_surrogate :: "string \<Rightarrow> bool" where
  "has_unescapable_surrogate (a # b # r) =
     ((a = CHR 0xED \<and> (0xA0::nat) \<le> of_char b \<and> of_char b \<le> (0xBF::nat)
         \<and> b \<noteq> CHR 0xB2 \<and> b \<noteq> CHR 0xB3)
      \<or> has_unescapable_surrogate (b # r))"
| "has_unescapable_surrogate [a] = False"
| "has_unescapable_surrogate [] = False"

fun encode_args :: "string list \<Rightarrow> py_exn option" where
  "encode_args [] = None"
| "encode_args (a # args) =
     (if has_unescapable_surrogate a then Some UnicodeEncodeError
      else if CHR 0x00 \<in> set a then Some ValueError
      else encode_args args)"

text \<open>
  Strict UTF-8, as the decoder of \<open>text=True\<close> takes it on a UTF-8 locale: after a
  first byte, the bytes that must follow it, each within its range. Overlong forms,
  surrogates and code points above U+10FFFF are refused.
\<close>

definition continuation_ranges :: "char \<Rightarrow> (nat \<times> nat) list option" where
  "continuation_ranges a =
     (let n = (of_char a :: nat)
      in if n < 0x80 then Some []
         else if 0xC2 \<le> n \<and> n \<le> 0xDF then Some [(0x80, 0xBF)]
         else if n = 0xE0 then Some [(0xA0, 0xBF), (0x80, 0xBF)]
         else if n = 0xED then Some [(0x80, 0x9F), (0x80, 0xBF)]
         else if 0xE1 \<le> n \<and> n \<le> 0xEF then Some [(0x80, 0xBF), (0x80, 0xBF)]
         else if n = 0xF0 then Some [(0x90, 0xBF), (0x80, 0xBF), (0x80, 0xBF)]
         else if 0xF1 \<le> n \<and> n \<le> 0xF3 then Some [(0x80, 0xBF), (0x80, 0xBF), (0x80, 0xBF)]
         else if n = 0xF4 then Some [(0x80, 0x8F), (0x80, 0xBF), (0x80, 0xBF)]
         else None)"

fun utf8_from :: "(nat \<times> nat) list \<Rightarrow> string \<Rightarrow> bool" where
  "utf8_from pending [] = (pending = [])"
| "utf8_from [] (a # r) =
     (case continuation_ranges a of None \<Rightarrow> False | Some pending \<Rightarrow> utf8_from pending r)"
| "utf8_from ((lo, hi) # pending) (b # r) =
     (lo \<le> of_char b \<and> of_char b \<le> hi \<and> utf8_from pending r)"

definition utf8_strict :: "string \<Rightarrow> bool" where
  "utf8_strict raw = utf8_from [] raw"

text \<open>
  Text mode reads with universal newlines: after decoding, \<open>\r\n\<close> and then a
  remaining \<open>\r\<close> become \<open>\n\<close>.
\<close>

fun translate_newlines :: "string \<Rightarrow> string" where
  "translate_newlines (a # b # r) =
     (if a = CHR 0x0D then
        (if b = CHR 0x0A then CHR 0x0A # translate_newlines r
         else CHR 0x0A # translate_newlines (b # r))
      else a # translate_newlines (b # r))"
| "translate_newlines [a] = [if a = CHR 0x0D then CHR 0x0A else a]"
| "translate_newlines [] = []"

definition decode_text :: "string \<Rightarrow> py_exn + string" where
  "decode_text raw =
     (if utf8_strict raw then Inr (translate_newlines raw) else Inl UnicodeDecodeError)"

text \<open>
  \<open>subprocess.run(cmd, input=..., text=True, capture_output=True, check=True)\<close>, in
  the order of the library: the arguments are encoded; the process is started, or
  \<open>FileNotFoundError\<close> is raised; the input is encoded for the pipe (strictly, so a
  surrogate raises \<open>UnicodeEncodeError\<close>); when the process has ended, its output and
  then its error stream are decoded, and bytes that are not UTF-8 raise
  \<open>UnicodeDecodeError\<close>; only then the status is looked at, and a status other than 0
  raises \<open>CalledProcessError\<close> with the two decoded texts.
\<close>

definition subprocess_run :: "world \<Rightarrow> string list \<Rightarrow> string \<Rightarrow> py_exn + CompletedProcess" where
  "subprocess_run env cmd inp =
     (case encode_args cmd of
        Some e \<Rightarrow> Inl e
      | None \<Rightarrow>
          (case env cmd inp of
             NotStarted \<Rightarrow> Inl FileNotFoundError
           | Exited rc out err \<Rightarrow>
               if has_surrogate inp then Inl UnicodeEncodeError
               else
                 (case decode_text out of
                    Inl e \<Rightarrow> Inl e
                  | Inr out_text \<Rightarrow>
                      (case decode_text err of
                         Inl e \<Rightarrow> Inl e
                       | Inr err_text \<Rightarrow>
                           if rc = 0
                           then Inr \<lparr>returncode = rc, stdout = out_text, stderr = err_text\<rparr>
                           else Inl (CalledProcessError rc out_text err_text)))))"

text \<open>
  \<open>str.strip()\<close> removes the white space at both ends. White space, on UTF-8 bytes:
  the ASCII characters 9 to 13, 28 to 32, and the encodings of U+0085, U+00A0,
  U+1680, U+2000 to U+200A, U+2028, U+2029, U+202F, U+205F and U+3000.
\<close>

definition is_space1 :: "char \<Rightarrow> bool" where
  "is_space1 a \<longleftrightarrow>
     (let n = (of_char a :: nat) in (9 \<le> n \<and> n \<le> 13) \<or> (28 \<le> n \<and> n \<le> 32))"

definition is_space2 :: "char \<Rightarrow> char \<Rightarrow> bool" where
  "is_space2 a b \<longleftrightarrow> a = CHR 0xC2 \<and> (b = CHR 0x85 \<or> b = CHR 0xA0)"

definition is_space3 :: "char \<Rightarrow> char \<Rightarrow> char \<Rightarrow> bool" where
  "is_space3 a b c \<longleftrightarrow>
     (a = CHR 0xE1 \<and> b = CHR 0x9A \<and> c = CHR 0x80) \<or>
     (a = CHR 0xE2 \<and> b = CHR 0x80 \<and>
        (((0x80::nat) \<le> of_char c \<and> of_char c \<le> (0x8A::nat)) \<or>
         c = CHR 0xA8 \<or> c = CHR 0xA9 \<or> c = CHR 0xAF)) \<or>
     (a = CHR 0xE2 \<and> b = CHR 0x81 \<and> c = CHR 0x9F) \<or>
     (a = CHR 0xE3 \<and> b = CHR 0x80 \<and> c = CHR 0x80)"

text \<open>
  Stripping at the front. With \<open>back\<close> the list is a reversed string, so the bytes of
  each character come last byte first.
\<close>

fun strip_front :: "bool \<Rightarrow> string \<Rightarrow> string" where
  "strip_front back (a # b # c # r) =
     (if is_space1 a then strip_front back (b # c # r)
      else if (if back then is_space2 b a else is_space2 a b) then strip_front back (c # r)
      else if (if back then is_space3 c b a else is_space3 a b c) then strip_front back r
      else a # b # c # r)"
| "strip_front back [a, b] =
     (if is_space1 a then strip_front back [b]
      else if (if back then is_space2 b a else is_space2 a b) then []
      else [a, b])"
| "strip_front back [a] = (if is_space1 a then [] else [a])"
| "strip_front back [] = []"

definition strip :: "string \<Rightarrow> string" where
  "strip s = rev (strip_front True (rev (strip_front False s)))"

text \<open>
  \<^verbatim>\<open>
  def ollama_run(model: str, prompt: str) -> str:
      cmd = ["ollama", "run", model]
      try:
          res = subprocess.run(cmd, input=prompt, text=True, capture_output=True, check=True)
          return res.stdout.strip()
      except subprocess.CalledProcessError as e:
          print("Ollama error:", e.stderr)
          return ""
  \<close>
  Only \<open>CalledProcessError\<close> is handled; any other exception leaves the function,
  and so does an exception of the print in the handler.
\<close>

definition ollama_run :: "world \<Rightarrow> string \<Rightarrow> string \<Rightarrow> (py_exn + string) \<times> out_line list" where
  "ollama_run env model prompt =
     (let cmd = [''ollama'', ''run'', model]
      in case subprocess_run env cmd prompt of
           Inr res \<Rightarrow> (Inr (strip (stdout res)), [])
         | Inl (CalledProcessError rc out err) \<Rightarrow>
             if has_surrogate err then (Inl UnicodeEncodeError, [])
             else (Inr [], [OllamaError err])
         | Inl e \<Rightarrow> (Inl e, []))"

section \<open>The prompt\<close>

definition TOOL_DOC :: string where
  \<open>TOOL_DOC =
     ''\<newline>''
   @ ''Available tools (call exactly one):\<newline>''
   @ ''\<newline>''
   @ ''1) add_ecu\<newline>''
   @ ''   parameters:\<newline>''
   @ ''     - id (string)\<newline>''
   @ ''     - cpu (string, optional)\<newline>''
   @ ''     - memories (list of {type:string, size_mb:int}, optional)\<newline>''
   @ ''     - controllers (list of {type:string, count:int}, optional)\<newline>''
   @ ''     - uncertainty (list of strings, optional)\<newline>''
   @ ''\<newline>''
   @ ''2) add_protocol\<newline>''
   @ ''   parameters:\<newline>''
   @ ''     - protocol (string or list of strings)  // allowed values: CAN, Ethernet, LIN, FlexRay\<newline>''
   @ ''\<newline>''
   @ ''3) add_hwip_block\<newline>''
   @ ''   parameters:\<newline>''
   @ ''     - ecu_id (string)\<newline>''
   @ ''     - type (string)  // e.g., I2C, SPI, UART\<newline>''
   @ ''     - count (int)\<newline>''
   @ ''\<newline>''
   @ ''4) validate_configuration\<newline>''
   @ ''   parameters:\<newline>''
   @ ''     - config (object)  // pass current config object\<newline>''
   @ ''\<newline>''
   @ ''5) create_configuration\<newline>''
   @ ''   parameters:\<newline>''
   @ ''     - ecu_count (int, optional)\<newline>''
   @ ''     - ecus (list of ECU objects)\<newline>''
   @ ''     - protocols (list of strings)\<newline>''
   @ ''     - power_budget_w (float, optional)\<newline>''
   @ ''     - notes (string, optional)\<newline>''
   @ ''\<newline>''
   @ ''Rules:\<newline>''
   @ ''- You must output ONLY a single JSON object: \<newline>''
   @ ''  { "tool_name": "tool_name_here", "parameters": { ... } }\<newline>''
   @ ''- DO NOT output any extra text, explanation, or markdown.\<newline>''
   @ ''- If uncertain, set a field to null and include its name in "uncertainty".\<newline>''\<close>

definition PROMPT_TEMPLATE :: string where
  \<open>PROMPT_TEMPLATE =
     ''You are an assistant that converts a user instruction into a single tool call.\<newline>''
   @ ''{tool_doc}\<newline>''
   @ ''\<newline>''
   @ ''User instruction:\<newline>''
   @ ''"""{user_input}"""\<newline>''
   @ ''\<newline>''
   @ ''Return exactly one JSON object representing the tool call.\<newline>''\<close>

text \<open>
  \<open>template.format(**kwargs)\<close> for a template whose replacement fields are plain
  names, as those of \<open>PROMPT_TEMPLATE\<close> are (conversions, format specifications,
  attribute and index access are not modelled). \<open>{{\<close> and \<open>}}\<close> stand for one
  brace; a field is replaced by the value of its keyword, which is copied as it is and
  not scanned again; a field without a name or with a number asks for a positional
  argument, and there is none. The first argument is the field name being read, if any.
\<close>

fun format_from :: "string option \<Rightarrow> (string \<times> string) list \<Rightarrow> string \<Rightarrow> py_exn + string" where
  "format_from None kw [] = Inr []"
| "format_from (Some name) kw [] = Inl ValueError"
| "format_from None kw [c] =
     (if c = CHR ''{'' \<or> c = CHR ''}'' then Inl ValueError else Inr [c])"
| "format_from None kw (c # d # cs) =
     (if c = CHR ''{'' then
        (if d = CHR ''{'' then map_sum id ((#) c) (format_from None kw cs)
         else format_from (Some []) kw (d # cs))
      else if c = CHR ''}'' then
        (if d = CHR ''}'' then map_sum id ((#) c) (format_from None kw cs)
         else Inl ValueError)
      else map_sum id ((#) c) (format_from None kw (d # cs)))"
| "format_from (Some name) kw (c # cs) =
     (if c = CHR ''}'' then
        (if list_all is_digit name then Inl IndexError
         else (case map_of kw name of
                 None \<Rightarrow> Inl (KeyError name)
               | Some v \<Rightarrow> map_sum id ((@) v) (format_from None kw cs)))
      else format_from (Some (name @ [c])) kw cs)"

definition str_format :: "string \<Rightarrow> (string \<times> string) list \<Rightarrow> py_exn + string" where
  "str_format template kw = format_from None kw template"

text \<open>\<open>PROMPT_TEMPLATE.format(tool_doc=..., user_input=...)\<close>, as the runner calls it.\<close>

definition build_prompt :: "string \<Rightarrow> string \<Rightarrow> py_exn + string" where
  "build_prompt tool_doc user_input =
     str_format PROMPT_TEMPLATE [(''tool_doc'', tool_doc), (''user_input'', user_input)]"

section \<open>The scenario runner\<close>

definition SCENARIOS :: "(string \<times> string) list" where
  "SCENARIOS =
     [(''S1_simple_ecu'', ''Create an ECU with Cortex-M4 and 2 CAN controllers.''),
      (''S2_protocols'', ''The system should support both CAN and Ethernet communication.''),
      (''S3_memory'', ''Add an ECU with Cortex-R5, 4MB Flash memory and 2 SPI controllers.''),
      (''S4_hwip'', ''Attach an I2C block to ECU-1.''),
      (''S5_validate'', ''Check if the configuration is valid.''),
      (''S6_ambiguous'', ''Create an ECU with Cortex-M6 and 3 CAN controllers.'')]"

text \<open>
  \<^verbatim>\<open>
  def run_tests(model: str):
      print(f" Testing model: {model}")
      for sid, user in SCENARIOS:
          print(f"\n--- {sid} ---")
          prompt = PROMPT_TEMPLATE.format(tool_doc=TOOL_DOC, user_input=user)
          start = time.time()
          out = ollama_run(model, prompt)
          elapsed = time.time() - start
          call = parse_tool_call(out)
          if call:
              print("Tool:", call.tool_name)
              print("Parameters:", call.parameters)
          else:
              print("Failed to parse tool call.")
          print(f" Time: {elapsed:.2f}s")
  \<close>
  The loop is a recursion over the scenarios that are left. An exception that leaves
  one iteration ends the loop; what was printed until then stays printed. A
  \<open>ToolCall\<close> object is true in a condition, \<open>None\<close> is false.
\<close>

text \<open>The two branches of \<open>if call\<close>, with what they print.\<close>

definition print_report :: "ToolCall option \<Rightarrow> (py_exn + unit) \<times> out_line list" where
  "print_report call =
     (case call of
        Some c \<Rightarrow>
          if has_surrogate (tool_name c) then (Inl UnicodeEncodeError, [])
          else (Inr (), [ToolLine (tool_name c), ParametersLine (parameters c)])
      | None \<Rightarrow> (Inr (), [FailedToParse]))"

fun run_scenarios ::
  "world \<Rightarrow> string \<Rightarrow> (string \<times> string) list \<Rightarrow> (py_exn + unit) \<times> out_line list" where
  "run_scenarios env model [] = (Inr (), [])"
| "run_scenarios env model ((sid, user) # rest) =
     (if has_surrogate sid then (Inl UnicodeEncodeError, [])
      else
        (case build_prompt TOOL_DOC user of
           Inl e \<Rightarrow> (Inl e, [ScenarioHeader sid])
         | Inr prompt \<Rightarrow>
             (case ollama_run env model prompt of
                (Inl e, printed1) \<Rightarrow> (Inl e, ScenarioHeader sid # printed1)
              | (Inr out, printed1) \<Rightarrow>
                  (case parse_tool_call out of
                     (Inl e, printed2) \<Rightarrow> (Inl e, ScenarioHeader sid # printed1 @ printed2)
                   | (Inr call, printed2) \<Rightarrow>
                       (case print_report call of
                          (Inl e, printed3) \<Rightarrow>
                            (Inl e, ScenarioHeader sid # printed1 @ printed2 @ printed3)
                        | (Inr _, printed3) \<Rightarrow>
                            (let (r, printed_rest) = run_scenarios env model rest
                             in (r, ScenarioHeader sid # printed1 @ printed2 @ printed3
                                      @ TimeLine # printed_rest)))))))"

definition run_tests :: "world \<Rightarrow> string \<Rightarrow> (py_exn + unit) \<times> out_line list" where
  "run_tests env model =
     (if has_surrogate model then (Inl UnicodeEncodeError, [])
      else (let (r, printed) = run_scenarios env model SCENARIOS
            in (r, TestingModel model # printed)))"

text \<open>
  The main block, from the point where the command line has given the model name
  (the option \<open>--model\<close> is required): it calls \<open>run_tests\<close> and the interpreter ends.
  The exit status of the interpreter is 0 when the program ends normally and 1 when
  an exception is not caught.
\<close>

definition exit_status :: "world \<Rightarrow> string \<Rightarrow> int" where
  "exit_status env model =
     (case fst (run_tests env model) of Inr _ \<Rightarrow> 0 | Inl e \<Rightarrow> 1)"

text \<open>A world in which the \<open>ollama\<close> executable is not installed.\<close>

definition no_ollama :: world where
  "no_ollama cmd inp = NotStarted"

text \<open>A world in which every run of the model exits with status 1 and a message.\<close>

definition failing_ollama :: world where
  "failing_ollama cmd inp = Exited 1 [] ''model not found''"

text \<open>A world in which every run exits with status 0 and answers with one tool call.\<close>

definition answering_ollama :: world where
  "answering_ollama cmd inp =
     Exited 0 (''{\"tool_name\":\"add_ecu\",\"parameters\":{\"id\":\"ECU-1\"}}'' @ [CHR 0x0D, CHR 0x0A]) []"

text \<open>A world in which every run exits with status 1 and an error stream that is not UTF-8.\<close>

definition garbled_ollama :: world where
  "garbled_ollama cmd inp = Exited 1 [] [CHR 0xFF, CHR 0xFE]"

section \<open>Facts about the string primitives\<close>

lemma str_find_absent: "c \<notin> set inp \<Longrightarrow> str_find inp c = - 1"
  by (induction inp) auto

lemma str_find_first:
  "c \<notin> set pre \<Longrightarrow> str_find (pre @ c # post) c = int (length pre)"
  by (induction pre) (auto simp: Let_def)

lemma str_rfind_absent: "c \<notin> set inp \<Longrightarrow> str_rfind inp c = - 1"
  by (simp add: str_rfind_def str_find_absent)

lemma str_rfind_last:
  assumes "c \<notin> set post"
  shows "str_rfind (pre @ c # post) c = int (length pre)"
proof -
  have "str_find (rev post @ c # rev pre) c = int (length (rev post))"
    using assms by (intro str_find_first) simp
  then show ?thesis
    by (simp add: str_rfind_def)
qed

lemma str_rfind_lower: "- 1 \<le> str_rfind inp c"
proof (cases "c \<in> set inp")
  case True
  then have "c \<in> set (rev inp)"
    by simp
  then obtain p1 p2 where "rev inp = p1 @ c # p2" and "c \<notin> set p1"
    by (meson split_list_first)
  then have "str_find (rev inp) c = int (length p1)" and "length p1 < length (rev inp)"
    by (simp_all add: str_find_first)
  then show ?thesis
    by (simp add: str_rfind_def Let_def)
next
  case False
  then show ?thesis
    by (simp add: str_rfind_absent)
qed

lemma slice_middle:
  "slice (pre @ mid @ post) (int (length pre)) (int (length pre + length mid)) = mid"
  by (simp add: slice_def Let_def)

lemma slice_empty: "0 \<le> i \<Longrightarrow> 0 \<le> j \<Longrightarrow> j \<le> i \<Longrightarrow> slice xs i j = []"
  by (simp add: slice_def Let_def min_def)

section \<open>Facts about the extractor\<close>

lemma extract_no_open:
  "CHR ''{'' \<notin> set inp \<Longrightarrow> extract_first_json inp = Inr None"
  by (simp add: extract_first_json_def str_index_def str_find_absent)

lemma extract_span:
  assumes "CHR ''{'' \<notin> set pre" and "CHR ''}'' \<notin> set post"
  shows "extract_first_json (pre @ CHR ''{'' # mid @ CHR ''}'' # post)
           = Inr (Some (CHR ''{'' # mid @ [CHR ''}'']))"
proof -
  let ?inp = "pre @ CHR ''{'' # mid @ CHR ''}'' # post"
  let ?body = "CHR ''{'' # mid @ [CHR ''}'']"
  have start: "str_find ?inp CHR ''{'' = int (length pre)"
    using assms(1) by (rule str_find_first)
  have "str_rfind ((pre @ CHR ''{'' # mid) @ CHR ''}'' # post) CHR ''}''
          = int (length (pre @ CHR ''{'' # mid))"
    using assms(2) by (rule str_rfind_last)
  then have stop: "str_rfind ?inp CHR ''}'' = int (length pre) + int (length mid) + 1"
    by simp
  have "slice (pre @ ?body @ post) (int (length pre)) (int (length pre + length ?body)) = ?body"
    by (rule slice_middle)
  then have "slice ?inp (int (length pre)) (int (length pre) + int (length mid) + 1 + 1) = ?body"
    by (simp add: add.commute add.left_commute)
  then show ?thesis
    by (simp add: extract_first_json_def str_index_def start stop)
qed

lemma extract_no_close_after:
  assumes "CHR ''{'' \<notin> set pre" and "CHR ''}'' \<notin> set post"
  shows "extract_first_json (pre @ CHR ''{'' # post) = Inr (Some [])"
proof -
  let ?inp = "pre @ CHR ''{'' # post"
  have start: "str_find ?inp CHR ''{'' = int (length pre)"
    using assms(1) by (rule str_find_first)
  have stop: "str_rfind ?inp CHR ''}'' + 1 \<le> int (length pre)"
  proof (cases "CHR ''}'' \<in> set pre")
    case True
    then obtain p1 p2 where p: "pre = p1 @ CHR ''}'' # p2" and "CHR ''}'' \<notin> set p2"
      by (meson split_list_last)
    then have "CHR ''}'' \<notin> set (p2 @ CHR ''{'' # post)"
      using assms(2) by simp
    then have "str_rfind (p1 @ CHR ''}'' # (p2 @ CHR ''{'' # post)) CHR ''}'' = int (length p1)"
      by (rule str_rfind_last)
    then show ?thesis
      using p by simp
  next
    case False
    then have "CHR ''}'' \<notin> set ?inp"
      using assms(2) by simp
    then show ?thesis
      by (simp add: str_rfind_absent)
  qed
  have nonneg: "0 \<le> str_rfind ?inp CHR ''}'' + 1"
    using str_rfind_lower [of ?inp "CHR ''}''"] by simp
  have "slice ?inp (int (length pre)) (str_rfind ?inp CHR ''}'' + 1) = []"
    using nonneg stop by (intro slice_empty) simp_all
  then show ?thesis
    by (simp add: extract_first_json_def str_index_def start)
qed

section \<open>Facts about surrogates, decoding and stripping\<close>

lemma has_surrogate_Cons:
  "has_surrogate (a # s) \<longleftrightarrow>
     (a = CHR 0xED \<and> s \<noteq> [] \<and> (0xA0::nat) \<le> of_char (hd s) \<and> of_char (hd s) \<le> (0xBF::nat))
     \<or> has_surrogate s"
  by (cases s) auto

lemma has_surrogate_append_right: "has_surrogate r \<Longrightarrow> has_surrogate (p @ r)"
  by (induction p) (auto simp: has_surrogate_Cons)

lemma has_surrogate_append_left: "has_surrogate p \<Longrightarrow> has_surrogate (p @ r)"
proof (induction p)
  case Nil
  then show ?case by simp
next
  case (Cons a p)
  then show ?case
    by (cases p) (auto simp: has_surrogate_Cons)
qed

lemma no_ED_no_surrogate: "CHR 0xED \<notin> set s \<Longrightarrow> \<not> has_surrogate s"
  by (induction s) (auto simp: has_surrogate_Cons)

lemma unescapable_is_surrogate: "has_unescapable_surrogate s \<Longrightarrow> has_surrogate s"
  by (induction s rule: has_unescapable_surrogate.induct) auto

lemma continuation_ranges_bound:
  "continuation_ranges a = Some p \<Longrightarrow> (lo, hi) \<in> set p \<Longrightarrow> hi \<le> 0xBF"
  by (auto simp: continuation_ranges_def Let_def split: if_splits)

lemma continuation_ranges_ED:
  "continuation_ranges (CHR 0xED) = Some [(0x80, 0x9F), (0x80, 0xBF)]"
  by (simp add: continuation_ranges_def)

lemma utf8_from_no_surrogate:
  "utf8_from p s \<Longrightarrow> (\<And>lo hi. (lo, hi) \<in> set p \<Longrightarrow> hi \<le> 0xBF) \<Longrightarrow> \<not> has_surrogate s"
proof (induction s arbitrary: p)
  case Nil
  show ?case by simp
next
  case (Cons a s)
  show ?case
  proof (cases p)
    case Nil
    with Cons.prems(1) obtain q where q: "continuation_ranges a = Some q" and u: "utf8_from q s"
      by (auto split: option.splits)
    have tail: "\<not> has_surrogate s"
      using u continuation_ranges_bound [OF q] by (rule Cons.IH)
    have "\<not> (a = CHR 0xED \<and> s \<noteq> [] \<and> (0xA0::nat) \<le> of_char (hd s))"
    proof
      assume h: "a = CHR 0xED \<and> s \<noteq> [] \<and> (0xA0::nat) \<le> of_char (hd s)"
      then obtain b r where s: "s = b # r"
        by (cases s) auto
      from h q have "q = [(0x80, 0x9F), (0x80, 0xBF)]"
        by (simp add: continuation_ranges_ED)
      with u s have "(of_char b :: nat) \<le> 0x9F"
        by simp
      with h s show False
        by simp
    qed
    with tail show ?thesis
      by (auto simp: has_surrogate_Cons)
  next
    case (Cons range q)
    obtain lo hi where range: "range = (lo, hi)"
      by (cases range)
    from Cons.prems(1) Cons range have a: "(of_char a :: nat) \<le> hi" and u: "utf8_from q s"
      by simp_all
    have "hi \<le> 0xBF"
      using Cons.prems(2) [of lo hi] Cons range by simp
    with a have "a \<noteq> CHR 0xED"
      by auto
    moreover have "\<not> has_surrogate s"
      using u Cons.prems(2) Cons by (intro Cons.IH [of q]) auto
    ultimately show ?thesis
      by (simp add: has_surrogate_Cons)
  qed
qed

lemma utf8_strict_no_surrogate: "utf8_strict bs \<Longrightarrow> \<not> has_surrogate bs"
  using utf8_from_no_surrogate [of "[]" bs] by (simp add: utf8_strict_def)

lemma translate_newlines_Nil: "translate_newlines s = [] \<longleftrightarrow> s = []"
  by (induction s rule: translate_newlines.induct) auto

lemma hd_translate_newlines:
  "s \<noteq> [] \<Longrightarrow> hd (translate_newlines s) = (if hd s = CHR 0x0D then CHR 0x0A else hd s)"
  by (induction s rule: translate_newlines.induct) auto

lemma translate_newlines_surrogate:
  "has_surrogate (translate_newlines s) \<Longrightarrow> has_surrogate s"
proof (induction s rule: translate_newlines.induct)
  case (1 a b r)
  show ?case
  proof (cases "a = CHR 0x0D")
    case True
    with 1 show ?thesis
      by (cases r) (auto simp: has_surrogate_Cons [of _ "translate_newlines _"] translate_newlines_Nil
            hd_translate_newlines split: if_splits)
  next
    case False
    with 1 show ?thesis
      by (auto simp: has_surrogate_Cons [of _ "translate_newlines _"] translate_newlines_Nil
            hd_translate_newlines split: if_splits)
  qed
qed simp_all

lemma decode_text_no_surrogate: "decode_text bs = Inr t \<Longrightarrow> \<not> has_surrogate t"
  using translate_newlines_surrogate [of bs] utf8_strict_no_surrogate [of bs]
  by (auto simp: decode_text_def split: if_splits)

lemma strip_front_suffix: "\<exists>p. s = p @ strip_front rv s"
proof (induction rv s rule: strip_front.induct)
  case (1 rv a b c r)
  show ?case
  proof (cases "is_space1 a")
    case True
    with 1(1) obtain p where "b # c # r = p @ strip_front rv (b # c # r)"
      by blast
    then have "a # b # c # r = (a # p) @ strip_front rv (a # b # c # r)"
      using True by simp
    then show ?thesis
      by blast
  next
    case n1: False
    show ?thesis
    proof (cases "if rv then is_space2 b a else is_space2 a b")
      case True
      with n1 1(2) obtain p where "c # r = p @ strip_front rv (c # r)"
        by blast
      then have "a # b # c # r = (a # b # p) @ strip_front rv (a # b # c # r)"
        using n1 True by simp
      then show ?thesis
        by blast
    next
      case n2: False
      show ?thesis
      proof (cases "if rv then is_space3 c b a else is_space3 a b c")
        case True
        with n1 n2 1(3) obtain p where "r = p @ strip_front rv r"
          by blast
        then have "a # b # c # r = (a # b # c # p) @ strip_front rv (a # b # c # r)"
          using n1 n2 True by simp
        then show ?thesis
          by blast
      next
        case False
        with n1 n2 have "a # b # c # r = [] @ strip_front rv (a # b # c # r)"
          by simp
        then show ?thesis
          by blast
      qed
    qed
  qed
next
  case (2 rv a b)
  then show ?case
    by (cases "is_space1 a"; cases "is_space1 b") (auto intro: exI [of _ "[a, b]"] exI [of _ "[a]"] exI [of _ "[]"])
next
  case (3 rv a)
  then show ?case
    by (auto intro: exI [of _ "[a]"] exI [of _ "[]"])
next
  case (4 rv)
  show ?case by simp
qed

lemma strip_infix: "\<exists>p q. s = p @ strip s @ q"
proof -
  obtain p where p: "s = p @ strip_front False s"
    using strip_front_suffix by blast
  obtain q where q: "rev (strip_front False s) = q @ strip_front True (rev (strip_front False s))"
    using strip_front_suffix by blast
  then have "strip_front False s = strip s @ rev q"
    by (metis rev_append rev_rev_ident strip_def)
  with p have "s = p @ strip s @ rev q"
    by simp
  then show ?thesis
    by blast
qed

lemma strip_surrogate: "has_surrogate (strip s) \<Longrightarrow> has_surrogate s"
proof -
  assume h: "has_surrogate (strip s)"
  obtain p q where s: "s = p @ strip s @ q"
    using strip_infix by blast
  from h have "has_surrogate (p @ strip s @ q)"
    by (intro has_surrogate_append_right has_surrogate_append_left)
  with s show ?thesis
    by simp
qed

section \<open>Facts about the handlers, the prompt and the validator\<close>

lemma is_Exception_all: "is_Exception e"
  by (cases e) simp_all

lemma build_prompt_value:
  \<open>build_prompt td ui =
     Inr (''You are an assistant that converts a user instruction into a single tool call.\<newline>''
          @ td @ ''\<newline>\<newline>User instruction:\<newline>"""'' @ ui
          @ ''"""\<newline>\<newline>Return exactly one JSON object representing the tool call.\<newline>'')\<close>
  by (simp add: build_prompt_def str_format_def PROMPT_TEMPLATE_def is_digit_def)

lemma TOOL_DOC_no_ED: "CHR 0xED \<notin> set TOOL_DOC"
  by (simp add: TOOL_DOC_def)

lemma prompt_no_surrogate:
  assumes "build_prompt TOOL_DOC user = Inr prompt" and "CHR 0xED \<notin> set user"
  shows "\<not> has_surrogate prompt"
proof -
  from assms have "CHR 0xED \<notin> set prompt"
    by (auto simp: build_prompt_value TOOL_DOC_no_ED)
  then show ?thesis
    by (rule no_ED_no_surrogate)
qed

lemma extract_never_raises: "\<exists>r. extract_first_json inp = Inr r"
  by (simp add: extract_first_json_def is_Exception_all split: sum.split)

lemma parse_tool_call_empty: "parse_tool_call [] = (Inr None, [])"
  by (simp add: parse_tool_call_def extract_no_open)

lemma parse_tool_call_decoded:
  assumes "extract_first_json reply = Inr (Some j)" and "j \<noteq> []"
  shows "parse_tool_call reply =
           (case (case json_loads j of Inl e \<Rightarrow> Inl e | Inr data \<Rightarrow> ToolCall_kwargs data) of
              Inr call \<Rightarrow> (Inr (Some call), [])
            | Inl e \<Rightarrow>
                if has_surrogate reply then (Inl UnicodeEncodeError, [JSONParseFailed e])
                else (Inr None, [JSONParseFailed e, RawText reply]))"
  using assms by (simp add: parse_tool_call_def is_Exception_all split: sum.split)

lemma parse_tool_call_cases:
  "parse_tool_call reply = (Inr None, []) \<or>
   (\<exists>e. parse_tool_call reply =
          (if has_surrogate reply then (Inl UnicodeEncodeError, [JSONParseFailed e])
           else (Inr None, [JSONParseFailed e, RawText reply]))) \<or>
   (\<exists>call. parse_tool_call reply = (Inr (Some call), []))"
  using extract_never_raises [of reply]
  by (auto simp: parse_tool_call_def is_Exception_all split: sum.split option.split)

lemma parse_tool_call_printable:
  assumes "\<not> has_surrogate reply"
  shows "\<exists>call printed. parse_tool_call reply = (Inr call, printed) \<and>
           (printed = [] \<or> (\<exists>e. printed = [JSONParseFailed e, RawText reply]))"
  using parse_tool_call_cases [of reply] assms by auto

lemma encode_args_ollama:
  "encode_args [''ollama'', ''run'', model] = None \<longleftrightarrow>
     \<not> has_unescapable_surrogate model \<and> CHR 0x00 \<notin> set model"
  by simp

lemma ollama_run_exited:
  assumes "encode_args [''ollama'', ''run'', model] = None"
    and "env [''ollama'', ''run'', model] prompt = Exited rc out err"
    and "\<not> has_surrogate prompt" and "utf8_strict out" and "utf8_strict err"
  shows "ollama_run env model prompt =
           (if rc = 0 then (Inr (strip (translate_newlines out)), [])
            else (Inr [], [OllamaError (translate_newlines err)]))"
proof -
  have "\<not> has_surrogate (translate_newlines err)"
    using assms(5) decode_text_no_surrogate [of err] by (simp add: decode_text_def)
  with assms show ?thesis
    by (simp add: ollama_run_def subprocess_run_def decode_text_def)
qed

lemma ollama_run_not_started:
  assumes "encode_args [''ollama'', ''run'', model] = None"
    and "env [''ollama'', ''run'', model] prompt = NotStarted"
  shows "ollama_run env model prompt = (Inl FileNotFoundError, [])"
  using assms by (simp add: ollama_run_def subprocess_run_def)

lemma ollama_run_undecodable:
  assumes "encode_args [''ollama'', ''run'', model] = None"
    and "env [''ollama'', ''run'', model] prompt = Exited rc out err"
    and "\<not> has_surrogate prompt" and "\<not> utf8_strict out \<or> \<not> utf8_strict err"
  shows "ollama_run env model prompt = (Inl UnicodeDecodeError, [])"
  using assms by (auto simp: ollama_run_def subprocess_run_def decode_text_def)

lemma undecodable_error_stream_is_not_caught:
  "ollama_run garbled_ollama ''llama3'' ''hello'' = (Inl UnicodeDecodeError, [])"
  by (rule ollama_run_undecodable
        [where env = garbled_ollama and rc = 1 and out = "[]" and err = "[CHR 0xFF, CHR 0xFE]"])
     (simp_all add: garbled_ollama_def utf8_strict_def continuation_ranges_def)

section \<open>Facts about the scenario loop\<close>

lemma run_scenarios_step:
  assumes "\<not> has_surrogate sid"
    and "build_prompt TOOL_DOC user = Inr prompt"
    and "ollama_run env model prompt = (Inr out, printed1)"
    and "parse_tool_call out = (Inr call, printed2)"
    and "print_report call = (Inr (), printed3)"
  shows "run_scenarios env model ((sid, user) # rest) =
           (fst (run_scenarios env model rest),
            ScenarioHeader sid # printed1 @ printed2 @ printed3
              @ TimeLine # snd (run_scenarios env model rest))"
  using assms by (simp add: Let_def split: prod.split)

lemma run_scenarios_all_decodable:
  assumes args: "encode_args [''ollama'', ''run'', model] = None"
    and env: "\<forall>cmd inp. \<exists>rc out err. env cmd inp = Exited rc out err \<and> utf8_strict out \<and> utf8_strict err"
    and names: "\<forall>cmd inp rc out err call.
        env cmd inp = Exited rc out err \<and>
        fst (parse_tool_call (strip (translate_newlines out))) = Inr (Some call)
        \<longrightarrow> \<not> has_surrogate (tool_name call)"
    and scs: "\<forall>sc \<in> set scs. \<not> has_surrogate (fst sc) \<and> CHR 0xED \<notin> set (snd sc)"
  shows "fst (run_scenarios env model scs) = Inr () \<and>
         [sid. ScenarioHeader sid \<leftarrow> snd (run_scenarios env model scs)] = map fst scs \<and>
         length (filter (\<lambda>l. l = TimeLine) (snd (run_scenarios env model scs))) = length scs"
  using scs
proof (induction scs)
  case Nil
  show ?case
    by simp
next
  case (Cons sc scs)
  obtain sid user where sc: "sc = (sid, user)"
    by (cases sc)
  from Cons.prems sc have sid: "\<not> has_surrogate sid" and user: "CHR 0xED \<notin> set user"
    by simp_all
  obtain prompt where p: "build_prompt TOOL_DOC user = Inr prompt"
    using build_prompt_value by blast
  have pp: "\<not> has_surrogate prompt"
    using p user by (rule prompt_no_surrogate)
  obtain rc out err where ex: "env [''ollama'', ''run'', model] prompt = Exited rc out err"
    and uo: "utf8_strict out" and ue: "utf8_strict err"
    using env by blast
  let ?reply = "if rc = 0 then strip (translate_newlines out) else []"
  let ?printed1 = "if rc = 0 then [] else [OllamaError (translate_newlines err)]"
  have o: "ollama_run env model prompt = (Inr ?reply, ?printed1)"
    using ollama_run_exited [where env = env, OF args ex pp uo ue] by simp
  have "\<not> has_surrogate (translate_newlines out)"
    using uo decode_text_no_surrogate [of out] by (simp add: decode_text_def)
  then have "\<not> has_surrogate (strip (translate_newlines out))"
    using strip_surrogate by blast
  then have rp: "\<not> has_surrogate ?reply"
    by simp
  obtain call printed2 where c: "parse_tool_call ?reply = (Inr call, printed2)"
    and p2: "printed2 = [] \<or> (\<exists>e. printed2 = [JSONParseFailed e, RawText ?reply])"
    using parse_tool_call_printable [OF rp] by blast
  have nm: "\<not> has_surrogate (tool_name c')" if "call = Some c'" for c'
  proof (cases "rc = 0")
    case True
    with c that have "fst (parse_tool_call (strip (translate_newlines out))) = Inr (Some c')"
      by simp
    with names ex show ?thesis
      by blast
  next
    case False
    with c that show ?thesis
      by (simp add: parse_tool_call_empty)
  qed
  obtain printed3 where r: "print_report call = (Inr (), printed3)"
    and p3: "printed3 = [FailedToParse] \<or> (\<exists>n ps. printed3 = [ToolLine n, ParametersLine ps])"
    using nm by (cases call) (auto simp: print_report_def)
  note step = run_scenarios_step [OF sid p o c r, of scs]
  have IH: "fst (run_scenarios env model scs) = Inr () \<and>
         [sid. ScenarioHeader sid \<leftarrow> snd (run_scenarios env model scs)] = map fst scs \<and>
         length (filter (\<lambda>l. l = TimeLine) (snd (run_scenarios env model scs))) = length scs"
    using Cons.prems by (intro Cons.IH) simp
  from p2 p3 IH show ?case
    unfolding sc step by auto
qed

lemma SCENARIOS_printable:
  "\<forall>sc \<in> set SCENARIOS. \<not> has_surrogate (fst sc) \<and> CHR 0xED \<notin> set (snd sc)"
  by (simp add: SCENARIOS_def)

section \<open>Claims about the extractor\<close>

text \<open>
  C3, as amended. When the text has no \<open>{\<close>, the extractor returns \<open>None\<close>. When the
  first \<open>{\<close> of the text is followed somewhere by a \<open>}\<close>, the extractor returns the
  substring from the first \<open>{\<close> through the last \<open>}\<close>, both included: with \<open>pre\<close> the
  part before the first \<open>{\<close> and \<open>post\<close> the part after the last \<open>}\<close>, what lies
  between. No exception leaves the extractor on any text.
\<close>

theorem extract_first_json_brace_span:
  "(CHR ''{'' \<notin> set inp \<longrightarrow> extract_first_json inp = Inr None) \<and>
   (\<forall>pre mid post.
      inp = pre @ CHR ''{'' # mid @ CHR ''}'' # post \<and>
      CHR ''{'' \<notin> set pre \<and> CHR ''}'' \<notin> set post \<longrightarrow>
      extract_first_json inp = Inr (Some (CHR ''{'' # mid @ [CHR ''}'']))) \<and>
   (\<exists>r. extract_first_json inp = Inr r)"
  by (auto simp: extract_no_open extract_span extract_never_raises)

text \<open>
  The amended C3 at two texts: one without any brace, and one with prose around the
  object and a stray \<open>}\<close> behind it, which the extractor keeps.
\<close>

theorem extract_first_json_brace_span_witness:
  "extract_first_json ''I think the answer is CAN.'' = Inr None \<and>
   extract_first_json ''Sure: {\"a\": {}} } done'' = Inr (Some ''{\"a\": {}} }'')"
proof
  have "CHR ''{'' \<notin> set ''I think the answer is CAN.''"
    by simp
  then show "extract_first_json ''I think the answer is CAN.'' = Inr None"
    using extract_first_json_brace_span [of "''I think the answer is CAN.''"] by blast
next
  let ?pre = "''Sure: ''" and ?mid = "''\"a\": {}} ''" and ?post = "'' done''"
  have "''Sure: {\"a\": {}} } done'' = ?pre @ CHR ''{'' # ?mid @ CHR ''}'' # ?post"
    and "CHR ''{'' \<notin> set ?pre" and "CHR ''}'' \<notin> set ?post"
    by simp_all
  then have "extract_first_json ''Sure: {\"a\": {}} } done''
               = Inr (Some (CHR ''{'' # ?mid @ [CHR ''}'']))"
    using extract_first_json_brace_span [of "''Sure: {\"a\": {}} } done''"] by blast
  then show "extract_first_json ''Sure: {\"a\": {}} } done'' = Inr (Some ''{\"a\": {}} }'')"
    by simp
qed

text \<open>
  C3 as it is stated fails on the text \<open>}{\<close>: the text has a first \<open>{\<close> and a last \<open>}\<close>,
  and the extractor returns the empty string, which holds neither of them, and not
  \<open>None\<close> either.
\<close>

theorem extract_first_json_close_before_open:
  "CHR ''{'' \<in> set ''}{'' \<and> CHR ''}'' \<in> set ''}{'' \<and> extract_first_json ''}{'' = Inr (Some [])"
  by (simp add: extract_first_json_def str_index_def str_rfind_def slice_def)

text \<open>
  C7. A text that begins with \<open>{\<close> and ends with \<open>}\<close> is returned unchanged by the
  extractor.
\<close>

theorem extract_first_json_unchanged:
  assumes "inp \<noteq> []" and "hd inp = CHR ''{''" and "last inp = CHR ''}''"
  shows "extract_first_json inp = Inr (Some inp)"
proof -
  from assms(1,2) obtain r where r: "inp = CHR ''{'' # r"
    by (cases inp) auto
  with assms(3) have "r \<noteq> []"
    by auto
  with r assms(3) obtain mid where "inp = CHR ''{'' # mid @ [CHR ''}'']"
    by (metis append_butlast_last_id last_ConsR)
  moreover have "extract_first_json ([] @ CHR ''{'' # mid @ CHR ''}'' # [])
                   = Inr (Some (CHR ''{'' # mid @ [CHR ''}'']))"
    by (rule extract_span) simp_all
  ultimately show ?thesis
    by simp
qed

text \<open>C7 at a nested object.\<close>

theorem extract_first_json_unchanged_witness:
  "extract_first_json ''{\"a\": {\"b\": 1}}'' = Inr (Some ''{\"a\": {\"b\": 1}}'')"
  using extract_first_json_unchanged [of "''{\"a\": {\"b\": 1}}''"] by simp

text \<open>
  C9. When no \<open>}\<close> comes after the first \<open>{\<close> of the text (the text has no \<open>}\<close>, or its
  last \<open>}\<close> is before its first \<open>{\<close>), the extractor returns the empty string, neither
  a substring in braces nor \<open>None\<close>, and \<open>parse_tool_call\<close> returns \<open>None\<close> for that text
  without decoding anything and without printing.
\<close>

theorem no_close_after_open_gives_no_call:
  assumes "CHR ''{'' \<notin> set pre" and "CHR ''}'' \<notin> set post"
  shows "extract_first_json (pre @ CHR ''{'' # post) = Inr (Some []) \<and>
         parse_tool_call (pre @ CHR ''{'' # post) = (Inr None, [])"
  using assms by (simp add: parse_tool_call_def extract_no_close_after)

text \<open>C9 at a text whose only \<open>}\<close> is before its first \<open>{\<close>.\<close>

theorem no_close_after_open_gives_no_call_witness:
  "extract_first_json ''done } now {\"tool_name\": 1'' = Inr (Some []) \<and>
   parse_tool_call ''done } now {\"tool_name\": 1'' = (Inr None, [])"
  using no_close_after_open_gives_no_call [of "''done } now ''" "''\"tool_name\": 1''"] by simp

section \<open>Claims about the validator\<close>



text \<open>
  C5. When the extracted text decodes to an object whose \<open>tool_name\<close> is a string and
  whose \<open>parameters\<close> is an object, \<open>parse_tool_call\<close> returns the call with these two
  values, whatever other keys the object has.
\<close>

theorem extra_fields_are_ignored:
  assumes "extract_first_json reply = Inr (Some j)" and "j \<noteq> []"
    and "json_loads j = Inr (JObject kwargs)"
    and "map_of kwargs ''tool_name'' = Some (JString name)"
    and "map_of kwargs ''parameters'' = Some (JObject params)"
  shows "parse_tool_call reply = (Inr (Some \<lparr>tool_name = name, parameters = params\<rparr>), [])"
  using assms(3-5)
  by (simp add: parse_tool_call_decoded [OF assms(1,2)] ToolCall_kwargs_def ToolCall_init_def
        validate_dict_def validate_str_def)

text \<open>
  C5 at an object with three more keys, before, between and after the two fields.
\<close>

theorem extra_fields_are_ignored_witness:
  "parse_tool_call
     ''{\"note\": null, \"tool_name\": \"add_ecu\", \"confidence\": 0.9, \"parameters\": {\"id\": \"ECU-1\"}, \"tags\": [1, true]}''
   = (Inr (Some \<lparr>tool_name = ''add_ecu'', parameters = [(''id'', JString ''ECU-1'')]\<rparr>), [])"
proof -
  let ?reply = "''{\"note\": null, \"tool_name\": \"add_ecu\", \"confidence\": 0.9, \"parameters\": {\"id\": \"ECU-1\"}, \"tags\": [1, true]}''"
  let ?kwargs = "[(''note'', JNull), (''tool_name'', JString ''add_ecu''),
                  (''confidence'', JFloat ''0.9''),
                  (''parameters'', JObject [(''id'', JString ''ECU-1'')]),
                  (''tags'', JArray [JInt 1, JBool True])]"
  have ex: "extract_first_json ?reply = Inr (Some ?reply)"
    by code_simp
  have ne: "?reply \<noteq> []"
    by simp
  have dec: "json_loads ?reply = Inr (JObject ?kwargs)"
    by code_simp
  have name: "map_of ?kwargs ''tool_name'' = Some (JString ''add_ecu'')"
    by simp
  have params: "map_of ?kwargs ''parameters'' = Some (JObject [(''id'', JString ''ECU-1'')])"
    by simp
  show ?thesis
    by (rule extra_fields_are_ignored [OF ex ne dec name params])
qed

text \<open>
  C6. On \<open>{"tool_name":"add_protocol","parameters":{"protocol":"CAN"}}\<close> the validator
  returns a call with \<open>tool_name\<close> \<open>add_protocol\<close> and \<open>parameters\<close> the mapping of
  \<open>protocol\<close> to the string \<open>CAN\<close>, and prints nothing.
\<close>

theorem add_protocol_call_is_parsed:
  "parse_tool_call ''{\"tool_name\":\"add_protocol\",\"parameters\":{\"protocol\":\"CAN\"}}'' =
     (Inr (Some \<lparr>tool_name = ''add_protocol'',
                   parameters = [(''protocol'', JString ''CAN'')]\<rparr>), [])"
  by code_simp

text \<open>
  C10, as amended. On every text without surrogate (every text that was decoded from
  the output of a process is one) \<open>parse_tool_call\<close> returns, a call or \<open>None\<close>, and no
  exception leaves it: when the decoder raises on the extracted text, and when the
  decoded value is refused by \<open>ToolCall\<close>, the exception is caught, it is printed with
  the raw text, and the result is \<open>None\<close>.
\<close>

theorem parse_tool_call_never_raises:
  assumes "\<not> has_surrogate reply"
  shows "(\<exists>call. fst (parse_tool_call reply) = Inr call) \<and>
   (\<forall>j e. extract_first_json reply = Inr (Some j) \<and> j \<noteq> [] \<and>
           (json_loads j = Inl e \<or> (\<exists>data. json_loads j = Inr data \<and> ToolCall_kwargs data = Inl e))
           \<longrightarrow> parse_tool_call reply = (Inr None, [JSONParseFailed e, RawText reply]))"
proof (intro conjI allI impI)
  show "\<exists>call. fst (parse_tool_call reply) = Inr call"
    using parse_tool_call_printable [OF assms] by auto
next
  fix j e
  assume h: "extract_first_json reply = Inr (Some j) \<and> j \<noteq> [] \<and>
           (json_loads j = Inl e \<or> (\<exists>data. json_loads j = Inr data \<and> ToolCall_kwargs data = Inl e))"
  then have "extract_first_json reply = Inr (Some j)" and "j \<noteq> []"
    by simp_all
  then have "parse_tool_call reply =
           (case (case json_loads j of Inl e \<Rightarrow> Inl e | Inr data \<Rightarrow> ToolCall_kwargs data) of
              Inr call \<Rightarrow> (Inr (Some call), [])
            | Inl e \<Rightarrow>
                if has_surrogate reply then (Inl UnicodeEncodeError, [JSONParseFailed e])
                else (Inr None, [JSONParseFailed e, RawText reply]))"
    by (rule parse_tool_call_decoded)
  with h assms show "parse_tool_call reply = (Inr None, [JSONParseFailed e, RawText reply])"
    by auto
qed

text \<open>
  The amended C10 at a text whose braces hold no JSON (the decoder raises) and at a
  text whose object has fields of the wrong types (the schema refuses it).
\<close>

theorem parse_tool_call_never_raises_witness:
  "parse_tool_call ''The call is {add_ecu}.'' =
     (Inr None, [JSONParseFailed JSONDecodeError, RawText ''The call is {add_ecu}.'']) \<and>
   parse_tool_call ''[{\"tool_name\": 7, \"parameters\": []}]'' =
     (Inr None, [JSONParseFailed (ValidationError [StringType ''tool_name'', DictType ''parameters'']),
                 RawText ''[{\"tool_name\": 7, \"parameters\": []}]''])"
proof
  let ?reply = "''The call is {add_ecu}.''"
  have p: "\<not> has_surrogate ?reply"
    by simp
  have "extract_first_json ?reply = Inr (Some ''{add_ecu}'')" and "''{add_ecu}'' \<noteq> []"
    and "json_loads ''{add_ecu}'' = Inl JSONDecodeError"
    by code_simp+
  then show "parse_tool_call ?reply = (Inr None, [JSONParseFailed JSONDecodeError, RawText ?reply])"
    using parse_tool_call_never_raises [OF p] by blast
next
  let ?reply = "''[{\"tool_name\": 7, \"parameters\": []}]''"
  let ?j = "''{\"tool_name\": 7, \"parameters\": []}''"
  let ?data = "JObject [(''tool_name'', JInt 7), (''parameters'', JArray [])]"
  have p: "\<not> has_surrogate ?reply"
    by simp
  have "extract_first_json ?reply = Inr (Some ?j)" and "?j \<noteq> []"
    and "json_loads ?j = Inr ?data"
    and "ToolCall_kwargs ?data = Inl (ValidationError [StringType ''tool_name'', DictType ''parameters''])"
    by code_simp+
  then show "parse_tool_call ?reply =
     (Inr None, [JSONParseFailed (ValidationError [StringType ''tool_name'', DictType ''parameters'']),
                 RawText ?reply])"
    using parse_tool_call_never_raises [OF p] by blast
qed

text \<open>
  C10 as it is stated fails on a text that holds a surrogate between two braces: the
  decoder raises, the handler catches that and prints it, and then the print of the
  raw text raises \<open>UnicodeEncodeError\<close>, which leaves \<open>parse_tool_call\<close>.
\<close>

theorem lone_surrogate_text_raises:
  "has_surrogate (CHR ''{'' # CHR 0xED # CHR 0xA0 # CHR 0x80 # ''}'') \<and>
   parse_tool_call (CHR ''{'' # CHR 0xED # CHR 0xA0 # CHR 0x80 # ''}'') =
     (Inl UnicodeEncodeError, [JSONParseFailed JSONDecodeError])"
  by code_simp

section \<open>Claims about the prompt builder\<close>

text \<open>
  C8. For every documentation text and every instruction, with or without braces or
  quotes in them, the prompt is built without error and is the fixed opening line,
  the documentation as it is, the line \<open>User instruction:\<close>, and the instruction as it
  is between two runs of three double quotes, followed by the fixed closing line.
\<close>

theorem build_prompt_places_both_texts:
  \<open>build_prompt tool_doc user_input =
     Inr (''You are an assistant that converts a user instruction into a single tool call.\<newline>''
          @ tool_doc @ ''\<newline>\<newline>User instruction:\<newline>"""'' @ user_input
          @ ''"""\<newline>\<newline>Return exactly one JSON object representing the tool call.\<newline>'')\<close>
  by (rule build_prompt_value)

section \<open>Claims about the invoker and the scenario loop\<close>

text \<open>
  C1, as amended. When the command and the prompt of a scenario can be passed to the
  process, the process runs and exits with a status other than 0, and its output and
  its error stream are UTF-8, \<open>ollama_run\<close> prints the decoded error stream and
  returns the empty string; \<open>parse_tool_call\<close> returns \<open>None\<close> on the empty string;
  and the loop prints the failure and the time of this scenario and goes on with
  the scenarios that are left.
\<close>

theorem nonzero_exit_is_recovered:
  assumes "build_prompt TOOL_DOC user = Inr prompt"
    and "\<not> has_surrogate sid" and "\<not> has_surrogate prompt"
    and "encode_args [''ollama'', ''run'', model] = None"
    and "env [''ollama'', ''run'', model] prompt = Exited rc out err" and "rc \<noteq> 0"
    and "utf8_strict out" and "utf8_strict err"
  shows "ollama_run env model prompt = (Inr [], [OllamaError (translate_newlines err)]) \<and>
         parse_tool_call [] = (Inr None, []) \<and>
         run_scenarios env model ((sid, user) # rest) =
           (fst (run_scenarios env model rest),
            [ScenarioHeader sid, OllamaError (translate_newlines err), FailedToParse, TimeLine]
              @ snd (run_scenarios env model rest))"
proof -
  have o: "ollama_run env model prompt = (Inr [], [OllamaError (translate_newlines err)])"
    using ollama_run_exited [where env = env, OF assms(4,5,3,7,8)] assms(6) by simp
  have r: "print_report None = (Inr (), [FailedToParse])"
    by (simp add: print_report_def)
  show ?thesis
    using run_scenarios_step [OF assms(2,1) o parse_tool_call_empty r, of rest]
    by (simp add: o parse_tool_call_empty)
qed

text \<open>
  The amended C1 on two scenarios, in a world where every run exits with status 1.
\<close>

theorem nonzero_exit_is_recovered_witness:
  "run_scenarios failing_ollama ''llama3''
     [(''S4_hwip'', ''Attach an I2C block to ECU-1.''), (''S5_validate'', ''Check if the configuration is valid.'')]
   = (Inr (),
      [ScenarioHeader ''S4_hwip'', OllamaError ''model not found'', FailedToParse, TimeLine,
       ScenarioHeader ''S5_validate'', OllamaError ''model not found'', FailedToParse, TimeLine])"
proof -
  have fail: "failing_ollama cmd inp = Exited 1 [] ''model not found''" for cmd inp
    by (simp add: failing_ollama_def)
  have ne: "(1::int) \<noteq> 0"
    by simp
  have args: "encode_args [''ollama'', ''run'', ''llama3''] = None"
    by simp
  have out: "utf8_strict []" and err: "utf8_strict ''model not found''"
    by (simp_all add: utf8_strict_def continuation_ranges_def)
  have tr: "translate_newlines ''model not found'' = ''model not found''"
    by simp
  have s4: "\<not> has_surrogate ''S4_hwip''" and s5: "\<not> has_surrogate ''S5_validate''"
    by simp_all
  have p4: "\<not> has_surrogate p" if "build_prompt TOOL_DOC ''Attach an I2C block to ECU-1.'' = Inr p" for p
    using that by (rule prompt_no_surrogate) simp
  have p5: "\<not> has_surrogate p" if "build_prompt TOOL_DOC ''Check if the configuration is valid.'' = Inr p" for p
    using that by (rule prompt_no_surrogate) simp
  note step4 = nonzero_exit_is_recovered [where env = failing_ollama,
      OF build_prompt_value s4 p4 [OF build_prompt_value] args fail ne out err,
      THEN conjunct2, THEN conjunct2]
  note step5 = nonzero_exit_is_recovered [where env = failing_ollama,
      OF build_prompt_value s5 p5 [OF build_prompt_value] args fail ne out err,
      THEN conjunct2, THEN conjunct2]
  show ?thesis
    by (simp only: step4 step5 tr run_scenarios.simps(1) fst_conv snd_conv append.simps)
qed

text \<open>
  C1 as it is stated fails when the process cannot be started: \<open>ollama_run\<close> handles
  \<open>CalledProcessError\<close> only, so the \<open>FileNotFoundError\<close> leaves it, nothing is printed
  for it, and the loop ends in its first scenario.
\<close>

theorem not_started_is_not_caught:
  "ollama_run no_ollama ''llama3'' ''hello'' = (Inl FileNotFoundError, []) \<and>
   run_tests no_ollama ''llama3'' =
     (Inl FileNotFoundError, [TestingModel ''llama3'', ScenarioHeader ''S1_simple_ecu''])"
  by (simp add: run_tests_def SCENARIOS_def build_prompt_value ollama_run_def
        subprocess_run_def no_ollama_def)

text \<open>
  C2, as amended. Let the model name given on the command line be a text without
  surrogate and without zero byte, let every process of the run be started and end
  with output and error stream in UTF-8 (whatever its exit status), and let no tool
  name that is parsed from an output hold a surrogate. Then the loop goes through
  all the scenarios in their order, each one up to the print of its time, no
  exception leaves \<open>run_tests\<close>, and the exit status is 0, however many scenarios
  failed by a status other than 0 or by a reply that does not parse.
\<close>

theorem started_runs_exit_zero:
  assumes "\<not> has_surrogate model" and "CHR 0x00 \<notin> set model"
    and "\<forall>cmd inp. \<exists>rc out err. env cmd inp = Exited rc out err \<and> utf8_strict out \<and> utf8_strict err"
    and "\<forall>cmd inp rc out err call.
           env cmd inp = Exited rc out err \<and>
           fst (parse_tool_call (strip (translate_newlines out))) = Inr (Some call)
           \<longrightarrow> \<not> has_surrogate (tool_name call)"
  shows "fst (run_tests env model) = Inr () \<and> exit_status env model = 0 \<and>
         [sid. ScenarioHeader sid \<leftarrow> snd (run_tests env model)] = map fst SCENARIOS \<and>
         length (filter (\<lambda>l. l = TimeLine) (snd (run_tests env model))) = length SCENARIOS"
proof -
  have args: "encode_args [''ollama'', ''run'', model] = None"
    using assms(1,2) unescapable_is_surrogate [of model] by auto
  obtain r printed where run: "run_scenarios env model SCENARIOS = (r, printed)"
    by (cases "run_scenarios env model SCENARIOS")
  with run_scenarios_all_decodable [OF args assms(3,4) SCENARIOS_printable]
  have "r = Inr ()" and "[sid. ScenarioHeader sid \<leftarrow> printed] = map fst SCENARIOS"
    and "length (filter (\<lambda>l. l = TimeLine) printed) = length SCENARIOS"
    by simp_all
  then show ?thesis
    using assms(1) by (simp add: exit_status_def run_tests_def run)
qed

text \<open>
  The amended C2 in a world where every run of the model exits with status 1, and
  in a world where every run answers with a tool call.
\<close>

theorem started_runs_exit_zero_witness:
  "exit_status failing_ollama ''llama3'' = 0 \<and>
   exit_status answering_ollama ''llama3'' = 0 \<and>
   length (filter (\<lambda>l. l = TimeLine) (snd (run_tests answering_ollama ''llama3''))) = 6"
proof -
  have m1: "\<not> has_surrogate ''llama3''" and m2: "CHR 0x00 \<notin> set ''llama3''"
    by simp_all
  have f1: "\<forall>cmd inp. \<exists>rc out err.
      failing_ollama cmd inp = Exited rc out err \<and> utf8_strict out \<and> utf8_strict err"
    by (simp add: failing_ollama_def utf8_strict_def continuation_ranges_def)
  have f2: "\<forall>cmd inp rc out err call.
      failing_ollama cmd inp = Exited rc out err \<and>
      fst (parse_tool_call (strip (translate_newlines out))) = Inr (Some call)
      \<longrightarrow> \<not> has_surrogate (tool_name call)"
    by (auto simp: failing_ollama_def strip_def parse_tool_call_empty)
  let ?answer = "''{\"tool_name\":\"add_ecu\",\"parameters\":{\"id\":\"ECU-1\"}}'' @ [CHR 0x0D, CHR 0x0A]"
  have a1: "\<forall>cmd inp. \<exists>rc out err.
      answering_ollama cmd inp = Exited rc out err \<and> utf8_strict out \<and> utf8_strict err"
    by (simp add: answering_ollama_def utf8_strict_def continuation_ranges_def)
  have parsed: "parse_tool_call (strip (translate_newlines ?answer)) =
      (Inr (Some \<lparr>tool_name = ''add_ecu'', parameters = [(''id'', JString ''ECU-1'')]\<rparr>), [])"
    by code_simp
  have a2: "\<forall>cmd inp rc out err call.
      answering_ollama cmd inp = Exited rc out err \<and>
      fst (parse_tool_call (strip (translate_newlines out))) = Inr (Some call)
      \<longrightarrow> \<not> has_surrogate (tool_name call)"
    using parsed by (auto simp: answering_ollama_def)
  show ?thesis
    using started_runs_exit_zero [OF m1 m2 f1 f2] started_runs_exit_zero [OF m1 m2 a1 a2]
    by (simp add: SCENARIOS_def)
qed

text \<open>
  C2 as it is stated fails when the process cannot be started: the exception is not
  caught anywhere, and the interpreter ends with status 1.
\<close>

theorem not_started_exits_one:
  "exit_status no_ollama ''llama3'' = 1"
  by (simp add: exit_status_def run_tests_def SCENARIOS_def build_prompt_value ollama_run_def
        subprocess_run_def no_ollama_def)

end
